theory Spec2Isabelle
  imports Complex_Main "HOL-Library.AList"
begin

section \<open>Python values used by the nutrition pipeline\<close>

text \<open>
  Numbers are modelled as real numbers: Python's floats and the Decimal columns of the
  feedback table are read as the exact values they denote, so every comparison and
  every product below is the exact one. Strings are ASCII strings.
\<close>

datatype py_error = ZeroDivisionError | TypeError | AttributeError

text \<open>\<^verbatim>\<open>a / b\<close> on numbers: raises ZeroDivisionError when the divisor is zero.\<close>

definition py_div :: "real \<Rightarrow> real \<Rightarrow> py_error + real" where
  "py_div a b = (if b = 0 then Inl ZeroDivisionError else Inr (a / b))"

text \<open>Truth value of an optional number (\<^verbatim>\<open>None\<close> and \<^verbatim>\<open>0\<close> are false).\<close>

fun truthy :: "real option \<Rightarrow> bool" where
  "truthy None = False"
| "truthy (Some x) = (x \<noteq> 0)"

text \<open>\<^verbatim>\<open>round(x, n)\<close>: the nearest multiple of \<open>10^-n\<close>, a tie going to the even one.\<close>

definition round_half_even :: "real \<Rightarrow> int" where
  "round_half_even x =
     (let f = \<lfloor>x\<rfloor>; d = x - of_int f
      in if d < 1 / 2 then f
         else if 1 / 2 < d then f + 1
         else if even f then f else f + 1)"

definition py_round :: "real \<Rightarrow> nat \<Rightarrow> real" where
  "py_round x n = of_int (round_half_even (x * 10 ^ n)) / 10 ^ n"

subsection \<open>Strings\<close>

definition lower_char :: "char \<Rightarrow> char" where
  "lower_char c =
     (let n = (of_char c :: nat) in if 65 \<le> n \<and> n \<le> 90 then char_of (n + 32) else c)"

definition lower :: "string \<Rightarrow> string" where
  "lower s = map lower_char s"

fun starts_with :: "string \<Rightarrow> string \<Rightarrow> bool" where
  "starts_with [] s = True"
| "starts_with (p # ps) [] = False"
| "starts_with (p # ps) (c # cs) = (p = c \<and> starts_with ps cs)"

text \<open>\<^verbatim>\<open>sub in s\<close> on strings.\<close>

fun contains :: "string \<Rightarrow> string \<Rightarrow> bool" where
  "contains sub [] = (sub = [])"
| "contains sub (c # cs) = (starts_with sub (c # cs) \<or> contains sub cs)"

text \<open>\<^verbatim>\<open>any(word in s for word in words)\<close>.\<close>

fun any_contained :: "string list \<Rightarrow> string \<Rightarrow> bool" where
  "any_contained [] s = False"
| "any_contained (w # ws) s = (contains w s \<or> any_contained ws s)"

definition is_space :: "char \<Rightarrow> bool" where
  "is_space c = (let n = (of_char c :: nat) in n = 32 \<or> (9 \<le> n \<and> n \<le> 13) \<or> (28 \<le> n \<and> n \<le> 31))"

text \<open>\<^verbatim>\<open>s.split()\<close>: the maximal runs of non-blank characters.\<close>

fun split_words :: "string \<Rightarrow> string \<Rightarrow> string list" where
  "split_words cur [] = (if cur = [] then [] else [cur])"
| "split_words cur (c # cs) =
     (if is_space c then (if cur = [] then split_words [] cs else cur # split_words [] cs)
      else split_words (cur @ [c]) cs)"

definition str_split :: "string \<Rightarrow> string list" where
  "str_split s = split_words [] s"

definition strip :: "string \<Rightarrow> string" where
  "strip s = rev (dropWhile is_space (rev (dropWhile is_space s)))"

section \<open>Food category classifier (app.py)\<close>

definition classify_food_category :: "string \<Rightarrow> string" where
  "classify_food_category food_name =
     (let food_name_lower = lower food_name in
      if any_contained [''pizza'', ''pasta'', ''bread'', ''rice'', ''noodle'', ''bagel'', ''cereal'',
           ''oatmeal'', ''quinoa'', ''barley'', ''wheat'', ''tortilla'', ''wrap'', ''sandwich'']
           food_name_lower then ''grain''
      else if any_contained [''chicken'', ''beef'', ''pork'', ''fish'', ''meat'', ''turkey'', ''ham'',
           ''salami'', ''cold cut'', ''deli'', ''sausage'', ''bacon'', ''egg'', ''tofu'', ''beans'',
           ''lentil'', ''salmon'', ''tuna''] food_name_lower then ''protein''
      else if any_contained [''apple'', ''banana'', ''orange'', ''fruit'', ''berry'', ''grape'',
           ''mango'', ''pineapple'', ''strawberry'', ''blueberry'', ''cherry'', ''peach'', ''pear'',
           ''kiwi''] food_name_lower then ''fruit''
      else if any_contained [''salad'', ''vegetable'', ''broccoli'', ''carrot'', ''spinach'',
           ''lettuce'', ''tomato'', ''pepper'', ''onion'', ''potato'', ''sweet potato'', ''corn'',
           ''peas'', ''green'', ''cabbage''] food_name_lower then ''vegetable''
      else if any_contained [''milk'', ''cheese'', ''yogurt'', ''butter'', ''cream'',
           ''cottage cheese'', ''mozzarella'', ''cheddar'', ''parmesan''] food_name_lower
        then ''dairy''
      else if any_contained [''chips'', ''crackers'', ''pretzels'', ''popcorn'', ''nuts'',
           ''trail mix'', ''granola''] food_name_lower then ''snack''
      else if any_contained [''cake'', ''cookie'', ''ice cream'', ''candy'', ''chocolate'',
           ''brownie'', ''pie'', ''donut'', ''muffin'', ''sweet'', ''dessert''] food_name_lower
        then ''dessert''
      else if any_contained [''burger'', ''fries'', ''mcdonalds'', ''subway'', ''kfc'', ''taco'',
           ''burrito''] food_name_lower then ''fast_food''
      else if any_contained [''coffee'', ''tea'', ''soda'', ''juice'', ''water'', ''beer'', ''wine'',
           ''smoothie'', ''shake''] food_name_lower then ''beverage''
      else ''other'')"

section \<open>Enhanced food database (enhanced_food_database.py)\<close>

text \<open>
  A row of a nutrient table: a Python dict in which only \<^verbatim>\<open>calories_per_100g\<close> is read
  with \<^verbatim>\<open>[]\<close>; every other key is read with \<^verbatim>\<open>get\<close> or tested with \<^verbatim>\<open>in\<close>, so it
  is optional here.
\<close>

record nutrition_data =
  calories_per_100g :: real
  protein_per_100g :: "real option"
  carbs_per_100g :: "real option"
  fat_per_100g :: "real option"
  fiber_per_100g :: "real option"
  sugar_per_100g :: "real option"
  sodium_per_100g :: "real option"
  typical_weight :: "real option"
  typical_calories :: "real option"

text \<open>The two shapes of row the tables contain.\<close>

definition branded :: "real \<Rightarrow> real \<Rightarrow> real \<Rightarrow> real \<Rightarrow> real \<Rightarrow> real \<Rightarrow> nutrition_data" where
  "branded c p cb f tw tc =
     \<lparr>calories_per_100g = c, protein_per_100g = Some p, carbs_per_100g = Some cb,
      fat_per_100g = Some f, fiber_per_100g = None, sugar_per_100g = None,
      sodium_per_100g = None, typical_weight = Some tw, typical_calories = Some tc\<rparr>"

definition generic :: "real \<Rightarrow> real \<Rightarrow> real \<Rightarrow> real \<Rightarrow> real \<Rightarrow> real \<Rightarrow> real \<Rightarrow> nutrition_data" where
  "generic c p cb f fi su so =
     \<lparr>calories_per_100g = c, protein_per_100g = Some p, carbs_per_100g = Some cb,
      fat_per_100g = Some f, fiber_per_100g = Some fi, sugar_per_100g = Some su,
      sodium_per_100g = Some so, typical_weight = None, typical_calories = None\<rparr>"

text \<open>Dicts keep insertion order, so a table is an association list in source order.\<close>

definition ENHANCED_FOOD_DATABASE :: "(string \<times> nutrition_data) list" where
  "ENHANCED_FOOD_DATABASE =
  [(''big mac'', branded 257 13 20 17 222 570),
   (''bigmac'', branded 257 13 20 17 222 570),
   (''mcdonald big mac'', branded 257 13 20 17 222 570),
   (''quarter pounder'', branded 265 15 22 16 194 515),
   (''mcchicken'', branded 208 12 20 11 143 400),
   (''chicken mcnuggets'', branded 300 18 13 20 77 230),
   (''whopper'', branded 250 13 22 15 291 660),
   (''burger king whopper'', branded 250 13 22 15 291 660),
   (''baconator'', branded 349 20 25 23 275 960),
   (''wendys baconator'', branded 349 20 25 23 275 960),
   (''son of baconator'', branded 290 18 23 18 200 580),
   (''pizza slice'', branded 266 11 33 10 100 285),
   (''pepperoni pizza'', branded 298 12 30 15 120 358),
   (''cheese pizza'', branded 276 12 33 11 100 276),
   (''margherita pizza'', branded 250 11 32 9 120 300),
   (''apple'', branded 52 (3 / 10) 14 (1 / 5) 150 78),
   (''banana'', branded 89 (11 / 10) 23 (3 / 10) 120 107),
   (''rice and beans'', branded 135 (9 / 2) 24 2 200 270),
   (''rice'', branded 130 (27 / 10) 28 (3 / 10) 150 195),
   (''caesar salad'', branded 90 (7 / 2) 6 7 200 180),
   (''green salad'', branded 20 (3 / 2) 4 (1 / 5) 100 20),
   (''grilled chicken'', branded 165 31 0 (18 / 5) 120 198),
   (''fried chicken'', branded 320 19 8 24 100 320),
   (''sandwich'', branded 250 12 30 10 150 375),
   (''club sandwich'', branded 280 15 25 15 200 560),
   (''burrito'', branded 206 8 28 7 220 453),
   (''quesadilla'', branded 234 11 22 12 150 351),
   (''taco'', branded 206 10 18 11 70 144),
   (''roti'', branded 299 9 50 8 40 120),
   (''chapati'', branded 299 9 50 8 40 120),
   (''naan'', branded 310 9 45 12 80 248),
   (''dal'', branded 130 8 20 2 150 195),
   (''dal curry'', branded 130 8 20 2 150 195),
   (''lentil curry'', branded 130 8 20 2 150 195),
   (''roti and dal'', branded 180 8 30 4 240 432),
   (''rice and dal'', branded 135 5 25 2 250 338),
   (''pasta with sauce'', branded 131 5 25 (11 / 10) 250 328),
   (''spaghetti'', branded 158 6 31 1 200 316),
   (''pancakes'', branded 227 6 28 9 80 182),
   (''waffle'', branded 291 8 33 14 75 218),
   (''french toast'', branded 230 8 25 11 65 150)]"

definition FOOD_CATEGORIES :: "(string \<times> string list) list" where
  "FOOD_CATEGORIES =
  [(''fast_food'', [''big mac'', ''bigmac'', ''whopper'', ''quarter pounder'', ''mcchicken'',
      ''baconator'', ''son of baconator'']),
   (''pizza'', [''pizza'', ''pepperoni pizza'', ''cheese pizza'', ''margherita pizza'']),
   (''mexican'', [''burrito'', ''quesadilla'', ''taco'', ''salsa'']),
   (''asian'', [''rice'', ''noodles'', ''sushi'', ''stir fry'']),
   (''indian'', [''roti'', ''chapati'', ''naan'', ''dal'', ''curry'', ''biryani'', ''tandoori'',
      ''roti and dal'', ''rice and dal'']),
   (''breakfast'', [''pancakes'', ''waffle'', ''french toast'', ''eggs'', ''bacon'']),
   (''salads'', [''caesar salad'', ''green salad'', ''garden salad'']),
   (''sandwiches'', [''sandwich'', ''club sandwich'', ''blt'', ''grilled cheese''])]"

text \<open>The fuzzy loop: the first key that contains the label or is contained in it.\<close>

fun fuzzy_lookup :: "string \<Rightarrow> (string \<times> nutrition_data) list \<Rightarrow> nutrition_data option" where
  "fuzzy_lookup food_lower [] = None"
| "fuzzy_lookup food_lower ((food_key, nutrition) # rest) =
     (if contains food_lower food_key \<or> contains food_key food_lower then Some nutrition
      else fuzzy_lookup food_lower rest)"

text \<open>The category loops, over the foods of all categories in order.\<close>

fun category_lookup ::
  "(string \<times> nutrition_data) list \<Rightarrow> string \<Rightarrow> string list \<Rightarrow> nutrition_data option" where
  "category_lookup db food_lower [] = None"
| "category_lookup db food_lower (food # rest) =
     (if (contains food food_lower \<or> contains food_lower food) \<and> map_of db food \<noteq> None
      then map_of db food
      else category_lookup db food_lower rest)"

definition get_enhanced_nutrition_data :: "string \<Rightarrow> nutrition_data option" where
  "get_enhanced_nutrition_data food_name =
     (let food_lower = strip (lower food_name) in
      case map_of ENHANCED_FOOD_DATABASE food_lower of
        Some nutrition \<Rightarrow> Some nutrition
      | None \<Rightarrow>
         (case fuzzy_lookup food_lower ENHANCED_FOOD_DATABASE of
            Some nutrition \<Rightarrow> Some nutrition
          | None \<Rightarrow>
              category_lookup ENHANCED_FOOD_DATABASE food_lower
                (concat (map snd FOOD_CATEGORIES))))"

text \<open>
  What the calculators return: one dict shape for all of them, the keys a path does
  not set being \<open>None\<close>. The text keys \<^verbatim>\<open>accuracy\<close>, \<^verbatim>\<open>brand\<close>, \<^verbatim>\<open>source\<close> and
  \<^verbatim>\<open>serving_description\<close> are written by some paths and read by none; they are left out.
  Field names carry the prefix \<open>cr_\<close>.
\<close>

record calorie_result =
  cr_food_name :: "string option"
  cr_weight_grams :: real
  cr_total_calories :: real
  cr_protein :: real
  cr_carbs :: real
  cr_fat :: real
  cr_fiber :: "real option"
  cr_sugar :: "real option"
  cr_sodium :: "real option"
  cr_data_source :: string
  cr_confidence_score :: "real option"

text \<open>\<^verbatim>\<open>d.get(key, 0)\<close> on an optional number.\<close>

fun get0 :: "real option \<Rightarrow> real" where
  "get0 None = 0"
| "get0 (Some x) = x"

definition calculate_accurate_calories :: "string \<Rightarrow> real option \<Rightarrow> calorie_result option" where
  "calculate_accurate_calories food_name weight_grams_arg =
     (case get_enhanced_nutrition_data food_name of
        None \<Rightarrow> None
      | Some nutrition_data \<Rightarrow>
          (let weight_grams =
                 (case weight_grams_arg of
                    None \<Rightarrow> (case typical_weight nutrition_data of None \<Rightarrow> 100 | Some tw \<Rightarrow> tw)
                  | Some w \<Rightarrow> w);
               scaled = calories_per_100g nutrition_data * (weight_grams / 100);
               calories =
                 (case typical_calories nutrition_data of
                    Some tc \<Rightarrow>
                      if Some weight_grams = typical_weight nutrition_data then tc else scaled
                  | None \<Rightarrow> scaled)
           in Some \<lparr>cr_food_name = None, cr_weight_grams = weight_grams,
                 cr_total_calories = py_round calories 1,
                 cr_protein = py_round (get0 (protein_per_100g nutrition_data) * (weight_grams / 100)) 1,
                 cr_carbs = py_round (get0 (carbs_per_100g nutrition_data) * (weight_grams / 100)) 1,
                 cr_fat = py_round (get0 (fat_per_100g nutrition_data) * (weight_grams / 100)) 1,
                 cr_fiber = None, cr_sugar = None, cr_sodium = None,
                 cr_data_source = ''enhanced_database'', cr_confidence_score = None\<rparr>))"

section \<open>Web search client (web_search_nutrition.py)\<close>

text \<open>
  The JSON object of a chat reply, and the dict \<^verbatim>\<open>get_web_search_nutrition\<close> returns: every
  key is optional, \<open>wd_error\<close> says whether the key \<^verbatim>\<open>error\<close> is present. Values are
  numbers (a reply with a text where a number is expected makes the arithmetic raise,
  which the client catches like any other failure).
\<close>

record web_data =
  wd_food_name :: "string option"
  wd_calories :: "real option"
  wd_protein :: "real option"
  wd_carbs :: "real option"
  wd_fat :: "real option"
  wd_fiber :: "real option"
  wd_sugar :: "real option"
  wd_sodium :: "real option"
  wd_serving_weight_grams :: "real option"
  wd_confidence :: "real option"
  wd_error :: bool

text \<open>The JSON object of a reply to the per-100g prompt.\<close>

record general_json =
  gj_food_name :: "string option"
  gj_calories_per_100g :: "real option"
  gj_protein_per_100g :: "real option"
  gj_carbs_per_100g :: "real option"
  gj_fat_per_100g :: "real option"
  gj_fiber_per_100g :: "real option"
  gj_sugar_per_100g :: "real option"
  gj_sodium_per_100g :: "real option"
  gj_confidence :: "real option"
  gj_error :: bool

record nutritional_info =
  ni_calories :: real
  ni_protein :: real
  ni_carbs :: real
  ni_fat :: real
  ni_fiber :: real
  ni_sugar :: real
  ni_sodium :: real

text \<open>
  The world outside the program. \<open>modules_imported\<close>: the import of the two helper
  modules succeeded (otherwise the three imported names are \<^verbatim>\<open>None\<close>).
  \<open>fast_food_reply\<close> and \<open>general_reply\<close>: the non-empty JSON object found in the chat
  reply to the prompt for a label, \<open>None\<close> when the request fails, the status is not 200,
  no JSON object is found or the object is empty.
  \<open>usda_nutrition\<close>: what \<^verbatim>\<open>_get_usda_nutrition\<close> returns, \<open>None\<close> when it raises.
\<close>

record environment =
  modules_imported :: bool
  fast_food_reply :: "string \<Rightarrow> web_data option"
  general_reply :: "string \<Rightarrow> general_json option"
  usda_nutrition :: "string \<Rightarrow> real \<Rightarrow> nutritional_info option"

definition fast_food_chains :: "string list" where
  "fast_food_chains =
     [''mcdonalds'', ''mcdonald'', ''burger king'', ''kfc'', ''taco bell'',
      ''subway'', ''pizza hut'', ''dominos'', ''starbucks'', ''dunkin'',
      ''wendys'', ''wendy'', ''chipotle'', ''five guys'', ''in-n-out'', ''jack in the box'',
      ''carl jr'', ''hardees'', ''arbys'', ''dairy queen'', ''sonic'',
      ''papa johns'', ''little caesars'', ''popeyes'', ''chick-fil-a'']"

text \<open>\<^verbatim>\<open>WebSearchNutritionCalculator._is_fast_food_item\<close>: the chains only.\<close>

definition web_is_fast_food_item :: "string \<Rightarrow> bool" where
  "web_is_fast_food_item food_name = any_contained fast_food_chains (lower food_name)"

definition needs_web_search :: "string \<Rightarrow> bool" where
  "needs_web_search food_name =
     any_contained [''big mac'', ''whopper'', ''quarter pounder'', ''mcchicken'', ''baconator'',
       ''pizza'', ''starbucks'', ''frappuccino'', ''latte'', ''branded'', ''restaurant'', ''chain'']
       (lower food_name)"

definition scale_nutrition_data :: "web_data \<Rightarrow> real \<Rightarrow> py_error + web_data" where
  "scale_nutrition_data nutrition_data target_weight =
     (let original_weight =
            (case wd_serving_weight_grams nutrition_data of None \<Rightarrow> 100 | Some s \<Rightarrow> s)
      in case py_div target_weight original_weight of
           Inl e \<Rightarrow> Inl e
         | Inr scale_factor \<Rightarrow>
             Inr (nutrition_data
               \<lparr>wd_calories := Some (get0 (wd_calories nutrition_data) * scale_factor),
                wd_protein := Some (get0 (wd_protein nutrition_data) * scale_factor),
                wd_carbs := Some (get0 (wd_carbs nutrition_data) * scale_factor),
                wd_fat := Some (get0 (wd_fat nutrition_data) * scale_factor),
                wd_fiber := Some (get0 (wd_fiber nutrition_data) * scale_factor),
                wd_sugar := Some (get0 (wd_sugar nutrition_data) * scale_factor),
                wd_sodium := Some (get0 (wd_sodium nutrition_data) * scale_factor),
                wd_serving_weight_grams := Some target_weight\<rparr>))"

text \<open>Any exception inside the search is caught there and turned into \<^verbatim>\<open>None\<close>.\<close>

definition search_fast_food_nutrition ::
  "environment \<Rightarrow> string \<Rightarrow> real option \<Rightarrow> web_data option" where
  "search_fast_food_nutrition env food_name estimated_weight =
     (case fast_food_reply env food_name of
        None \<Rightarrow> None
      | Some nutrition_data \<Rightarrow>
          if wd_error nutrition_data then None
          else (case estimated_weight of
                  Some w \<Rightarrow>
                    if w \<noteq> 0
                       \<and> w \<noteq> (case wd_serving_weight_grams nutrition_data of
                                 None \<Rightarrow> w | Some s \<Rightarrow> s)
                    then (case scale_nutrition_data nutrition_data w of
                            Inl e \<Rightarrow> None
                          | Inr scaled \<Rightarrow> Some scaled)
                    else Some nutrition_data
                | None \<Rightarrow> Some nutrition_data))"

definition search_general_nutrition ::
  "environment \<Rightarrow> string \<Rightarrow> real option \<Rightarrow> web_data option" where
  "search_general_nutrition env food_name estimated_weight =
     (case general_reply env food_name of
        None \<Rightarrow> None
      | Some nutrition_data \<Rightarrow>
          if gj_error nutrition_data then None
          else
            (let actual_weight =
                   (case estimated_weight of
                      None \<Rightarrow> 100 | Some w \<Rightarrow> if w \<noteq> 0 then w else 100);
                 scale_factor = actual_weight / 100
             in Some
               \<lparr>wd_food_name =
                  Some (case gj_food_name nutrition_data of None \<Rightarrow> food_name | Some n \<Rightarrow> n),
                wd_calories = Some (get0 (gj_calories_per_100g nutrition_data) * scale_factor),
                wd_protein = Some (get0 (gj_protein_per_100g nutrition_data) * scale_factor),
                wd_carbs = Some (get0 (gj_carbs_per_100g nutrition_data) * scale_factor),
                wd_fat = Some (get0 (gj_fat_per_100g nutrition_data) * scale_factor),
                wd_fiber = Some (get0 (gj_fiber_per_100g nutrition_data) * scale_factor),
                wd_sugar = Some (get0 (gj_sugar_per_100g nutrition_data) * scale_factor),
                wd_sodium =
                  Some (get0 (gj_sodium_per_100g nutrition_data) * scale_factor / 1000),
                wd_serving_weight_grams = Some actual_weight,
                wd_confidence =
                  Some (case gj_confidence nutrition_data of None \<Rightarrow> 7 / 10 | Some c \<Rightarrow> c),
                wd_error = False\<rparr>))"

definition get_web_search_nutrition ::
  "environment \<Rightarrow> string \<Rightarrow> real option \<Rightarrow> web_data option" where
  "get_web_search_nutrition env food_name estimated_weight =
     (if web_is_fast_food_item food_name
      then search_fast_food_nutrition env food_name estimated_weight
      else if needs_web_search food_name
      then search_general_nutrition env food_name estimated_weight
      else None)"

text \<open>The result dict built from web data, the same in both places that build it.\<close>

definition web_result :: "string \<Rightarrow> string \<Rightarrow> real \<Rightarrow> web_data \<Rightarrow> calorie_result" where
  "web_result source_tag food_name estimated_weight web_data =
     \<lparr>cr_food_name =
        Some (case wd_food_name web_data of None \<Rightarrow> food_name | Some n \<Rightarrow> n),
      cr_weight_grams =
        (case wd_serving_weight_grams web_data of None \<Rightarrow> estimated_weight | Some s \<Rightarrow> s),
      cr_total_calories = py_round (get0 (wd_calories web_data)) 1,
      cr_protein = py_round (get0 (wd_protein web_data)) 1,
      cr_carbs = py_round (get0 (wd_carbs web_data)) 1,
      cr_fat = py_round (get0 (wd_fat web_data)) 1,
      cr_fiber = Some (py_round (get0 (wd_fiber web_data)) 1),
      cr_sugar = Some (py_round (get0 (wd_sugar web_data)) 1),
      cr_sodium = Some (py_round (get0 (wd_sodium web_data)) 3),
      cr_data_source = source_tag,
      cr_confidence_score =
        Some (case wd_confidence web_data of None \<Rightarrow> 9 / 10 | Some c \<Rightarrow> c)\<rparr>"

text \<open>What the recogniser hands over; a key may be absent.\<close>

record recognition_result =
  rr_primary_food :: "string option"
  rr_estimated_weight :: "real option"
  rr_all_foods :: "string list option"

definition enhance_nutrition_with_web_search ::
  "environment \<Rightarrow> recognition_result \<Rightarrow> calorie_result \<Rightarrow> calorie_result" where
  "enhance_nutrition_with_web_search env recognition existing_calculation =
     (let food_name = (case rr_primary_food recognition of None \<Rightarrow> [] | Some n \<Rightarrow> n);
          estimated_weight =
            (case rr_estimated_weight recognition of None \<Rightarrow> 100 | Some w \<Rightarrow> w)
      in case get_web_search_nutrition env food_name (Some estimated_weight) of
           Some web_data \<Rightarrow>
             if 8 / 10 < get0 (wd_confidence web_data)
             then web_result ''web_search_enhanced'' food_name estimated_weight web_data
             else existing_calculation
                    \<lparr>cr_data_source := cr_data_source existing_calculation @ ''_web_verified''\<rparr>
         | None \<Rightarrow>
             existing_calculation
               \<lparr>cr_data_source := cr_data_source existing_calculation @ ''_web_verified''\<rparr>)"

section \<open>Calorie calculator (calorie_calculator.py)\<close>

definition is_fast_food_item :: "string \<Rightarrow> bool" where
  "is_fast_food_item food_name =
     (let food_lower = lower food_name
      in any_contained fast_food_chains food_lower
         \<or> any_contained [''big mac'', ''whopper'', ''quarter pounder'', ''mcchicken'',
              ''baconator'', ''son of baconator'', ''frappuccino'', ''latte'', ''cappuccino'']
              food_lower)"

definition is_branded_or_restaurant_item :: "string \<Rightarrow> bool" where
  "is_branded_or_restaurant_item food_name =
     any_contained
       [''olive garden'', ''red lobster'', ''applebees'', ''chilis'', ''outback'',
        ''ihop'', ''dennys'', ''panda express'', ''pf changs'', ''cheesecake factory'',
        ''oreo'', ''doritos'', ''lays'', ''pringles'', ''pepsi'', ''coca cola'', ''coke'',
        ''snickers'', ''kit kat'', ''reeses'', ''hershey'', ''mars'', ''twix'',
        ''cheerios'', ''frosted flakes'', ''lucky charms'', ''fruit loops'',
        ''ben jerry'', ''haagen dazs'', ''blue bell'', ''breyers'',
        ''lean cuisine'', ''hungry man'', ''stouffers'', ''marie callender'',
        ''frappuccino'', ''macchiato'', ''cappuccino'', ''americano'',
        ''energy drink'', ''red bull'', ''monster'', ''rockstar'',
        ''brand'', ''restaurant'', ''chain'', ''frozen meal'', ''packaged'']
       (lower food_name)"

definition local_food_db :: "(string \<times> nutrition_data) list" where
  "local_food_db =
  [(''apple'', generic 52 (3 / 10) 14 (1 / 5) (12 / 5) 10 (1 / 1000)),
   (''banana'', generic 89 (11 / 10) 23 (3 / 10) (13 / 5) 12 (1 / 1000)),
   (''orange'', generic 47 (9 / 10) 12 (1 / 10) (12 / 5) 9 (1 / 1000)),
   (''rice'', generic 130 (27 / 10) 28 (3 / 10) (2 / 5) (1 / 10) (1 / 1000)),
   (''chicken'', generic 165 31 0 (18 / 5) 0 0 (37 / 500)),
   (''chicken breast'', generic 165 31 0 (18 / 5) 0 0 (37 / 500)),
   (''beef'', generic 250 26 0 15 0 0 (59 / 1000)),
   (''pork'', generic 242 27 0 14 0 0 (31 / 500)),
   (''fish'', generic 206 22 0 12 0 0 (59 / 1000)),
   (''salmon'', generic 208 20 0 13 0 0 (27 / 500)),
   (''bread'', generic 265 9 49 (16 / 5) (27 / 10) 5 (491 / 1000)),
   (''pasta'', generic 131 5 25 (11 / 10) (9 / 5) (3 / 5) (1 / 1000)),
   (''egg'', generic 155 13 (11 / 10) 11 0 (11 / 10) (31 / 250)),
   (''milk'', generic 61 (16 / 5) (24 / 5) (33 / 10) 0 (24 / 5) (11 / 250)),
   (''cheese'', generic 402 25 (13 / 10) 33 0 (1 / 2) (621 / 1000)),
   (''yogurt'', generic 59 10 (18 / 5) (2 / 5) 0 (16 / 5) (23 / 500)),
   (''broccoli'', generic 34 (14 / 5) 7 (2 / 5) (13 / 5) (3 / 2) (33 / 1000)),
   (''carrots'', generic 41 (9 / 10) 10 (1 / 5) (14 / 5) (47 / 10) (69 / 1000)),
   (''spinach'', generic 23 (29 / 10) (18 / 5) (2 / 5) (11 / 5) (2 / 5) (79 / 1000)),
   (''tomato'', generic 18 (9 / 10) (39 / 10) (1 / 5) (6 / 5) (13 / 5) (1 / 200)),
   (''potato'', generic 77 2 17 (1 / 10) (11 / 5) (4 / 5) (3 / 500)),
   (''pizza'', generic 266 11 33 10 (23 / 10) (18 / 5) (299 / 500)),
   (''burger'', generic 295 17 25 15 2 4 (497 / 1000)),
   (''sandwich'', generic 250 12 30 10 3 4 (19 / 50)),
   (''salad'', generic 20 (3 / 2) 4 (1 / 5) (9 / 5) 2 (7 / 250))]"

definition category_nutrition :: "(string \<times> nutrition_data) list" where
  "category_nutrition =
  [(''chicken'', generic 165 31 0 (18 / 5) 0 0 (37 / 500)),
   (''beef'', generic 250 26 0 15 0 0 (59 / 1000)),
   (''pork'', generic 242 27 0 14 0 0 (31 / 500)),
   (''fish'', generic 206 22 0 12 0 0 (59 / 1000)),
   (''salmon'', generic 208 20 0 13 0 0 (27 / 500)),
   (''rice'', generic 130 (27 / 10) 28 (3 / 10) (2 / 5) (1 / 10) (1 / 1000)),
   (''pasta'', generic 131 5 25 (11 / 10) (9 / 5) (3 / 5) (1 / 1000)),
   (''bread'', generic 265 9 49 (16 / 5) (27 / 10) 5 (491 / 1000)),
   (''noodles'', generic 138 (9 / 2) 25 (11 / 5) (9 / 5) (3 / 5) (1 / 1000)),
   (''pizza'', generic 280 12 35 12 (5 / 2) 4 (16 / 25)),
   (''burger'', generic 320 18 28 18 2 4 (13 / 25)),
   (''sandwich'', generic 250 12 30 10 3 4 (19 / 50)),
   (''taco'', generic 220 11 20 12 3 2 (7 / 20)),
   (''vegetable'', generic 35 3 7 (2 / 5) 3 2 (1 / 25)),
   (''salad'', generic 20 (3 / 2) 4 (1 / 5) (9 / 5) 2 (7 / 250)),
   (''fruit'', generic 60 (1 / 2) 15 (1 / 5) (5 / 2) 12 (1 / 1000))]"

text \<open>
  The score one table key gets in \<^verbatim>\<open>_get_local_nutrition\<close>. Word sets are lists without
  repetition; the quotient is taken only when a common word exists, so its divisor is
  at least one.
\<close>

definition match_score :: "string \<Rightarrow> string \<Rightarrow> real" where
  "match_score food_name_lower food_key =
     (if food_name_lower = food_key then 100
      else if contains food_name_lower food_key \<or> contains food_key food_name_lower then 80
      else
        (let food_words = remdups (str_split food_name_lower);
             key_words = remdups (str_split food_key);
             common_words = filter (\<lambda>w. w \<in> set key_words) food_words
         in if common_words \<noteq> []
            then (let score = real (length common_words)
                                / real (max (length food_words) (length key_words)) * 50
                  in if list_ex (\<lambda>w. w \<in> set [''chicken'', ''beef'', ''pork'', ''fish'',
                          ''salmon'', ''pizza'', ''burger'', ''rice'', ''pasta'']) common_words
                     then score + 20 else score)
            else 0))"

fun best_local_match ::
  "string \<Rightarrow> (string \<times> nutrition_data) list \<Rightarrow> nutrition_data option \<times> real
     \<Rightarrow> nutrition_data option \<times> real" where
  "best_local_match food_name_lower [] best = best"
| "best_local_match food_name_lower ((food_key, nutrition) # rest) (best_match, best_score) =
     (let score = match_score food_name_lower food_key
      in if best_score < score
         then best_local_match food_name_lower rest (Some nutrition, score)
         else best_local_match food_name_lower rest (best_match, best_score))"

fun first_category :: "string \<Rightarrow> (string \<times> nutrition_data) list \<Rightarrow> nutrition_data option" where
  "first_category food_name_lower [] = None"
| "first_category food_name_lower ((category, nutrition) # rest) =
     (if contains category food_name_lower then Some nutrition
      else first_category food_name_lower rest)"

definition match_food_category :: "string \<Rightarrow> nutrition_data option" where
  "match_food_category food_name_lower =
     (case first_category food_name_lower category_nutrition of
        Some nutrition \<Rightarrow> Some nutrition
      | None \<Rightarrow>
          if any_contained [''meat'', ''steak'', ''roast''] food_name_lower
          then map_of category_nutrition ''beef''
          else if any_contained [''vegetable'', ''veggie'', ''green''] food_name_lower
          then map_of category_nutrition ''vegetable''
          else if any_contained [''fruit'', ''berry'', ''apple'', ''orange''] food_name_lower
          then map_of category_nutrition ''fruit''
          else None)"

definition get_local_nutrition :: "string \<Rightarrow> real \<Rightarrow> nutritional_info" where
  "get_local_nutrition food_name weight_grams =
     (let food_name_lower = lower food_name;
          (best_match, best_score) = best_local_match food_name_lower local_food_db (None, 0);
          matched = (if best_match = None \<or> best_score < 10
                     then match_food_category food_name_lower else best_match);
          chosen = (case matched of
                      None \<Rightarrow> generic 150 5 20 5 2 8 (3 / 10)
                    | Some m \<Rightarrow> m);
          scale_factor = weight_grams / 100
      in \<lparr>ni_calories = calories_per_100g chosen * scale_factor,
          ni_protein = get0 (protein_per_100g chosen) * scale_factor,
          ni_carbs = get0 (carbs_per_100g chosen) * scale_factor,
          ni_fat = get0 (fat_per_100g chosen) * scale_factor,
          ni_fiber = get0 (fiber_per_100g chosen) * scale_factor,
          ni_sugar = get0 (sugar_per_100g chosen) * scale_factor,
          ni_sodium = get0 (sodium_per_100g chosen) * scale_factor\<rparr>)"

text \<open>The USDA client is tried first (its key is a non-empty constant).\<close>

definition get_nutrition_info :: "environment \<Rightarrow> string \<Rightarrow> real \<Rightarrow> nutritional_info" where
  "get_nutrition_info env food_name weight_grams =
     (case usda_nutrition env food_name weight_grams of
        Some info \<Rightarrow> info
      | None \<Rightarrow> get_local_nutrition food_name weight_grams)"

definition add_nutrition :: "nutritional_info \<Rightarrow> nutritional_info \<Rightarrow> nutritional_info" where
  "add_nutrition combined food_nutrition =
     \<lparr>ni_calories = ni_calories combined + ni_calories food_nutrition,
      ni_protein = ni_protein combined + ni_protein food_nutrition,
      ni_carbs = ni_carbs combined + ni_carbs food_nutrition,
      ni_fat = ni_fat combined + ni_fat food_nutrition,
      ni_fiber = ni_fiber combined + ni_fiber food_nutrition,
      ni_sugar = ni_sugar combined + ni_sugar food_nutrition,
      ni_sodium = ni_sodium combined + ni_sodium food_nutrition\<rparr>"

text \<open>The share each food gets in \<^verbatim>\<open>_calculate_multi_food_nutrition\<close> (two foods or more).\<close>

definition weight_per_food :: "string list \<Rightarrow> real \<Rightarrow> real" where
  "weight_per_food all_foods total_weight = total_weight / real (length all_foods)"

definition calculate_multi_food_nutrition :: "string list \<Rightarrow> real \<Rightarrow> nutritional_info" where
  "calculate_multi_food_nutrition all_foods total_weight =
     (if length all_foods \<le> 1
      then get_local_nutrition (case all_foods of [] \<Rightarrow> ''unknown'' | f # _ \<Rightarrow> f) total_weight
      else foldl (\<lambda>combined food.
                    add_nutrition combined
                      (get_local_nutrition food (weight_per_food all_foods total_weight)))
             \<lparr>ni_calories = 0, ni_protein = 0, ni_carbs = 0, ni_fat = 0, ni_fiber = 0,
              ni_sugar = 0, ni_sodium = 0\<rparr> all_foods)"

definition get_fallback_nutrition :: "recognition_result \<Rightarrow> calorie_result" where
  "get_fallback_nutrition recognition =
     (let estimated_weight =
            (case rr_estimated_weight recognition of None \<Rightarrow> 100 | Some w \<Rightarrow> w)
      in \<lparr>cr_food_name =
            Some (case rr_primary_food recognition of None \<Rightarrow> ''Unknown food'' | Some n \<Rightarrow> n),
          cr_weight_grams = estimated_weight,
          cr_total_calories = estimated_weight * (15 / 10),
          cr_protein = estimated_weight * (5 / 100),
          cr_carbs = estimated_weight * (2 / 10),
          cr_fat = estimated_weight * (5 / 100),
          cr_fiber = Some (estimated_weight * (2 / 100)),
          cr_sugar = Some (estimated_weight * (8 / 100)),
          cr_sodium = Some (estimated_weight * (3 / 1000)),
          cr_data_source = ''fallback_estimate'',
          cr_confidence_score = None\<rparr>)"

text \<open>Step 3 of \<^verbatim>\<open>calculate_calories\<close>: the USDA client or the local tables.\<close>

definition standard_calculation ::
  "environment \<Rightarrow> string \<Rightarrow> real \<Rightarrow> string list \<Rightarrow> calorie_result" where
  "standard_calculation env food_name estimated_weight all_foods =
     (let nutrition_info =
            (if 1 < length all_foods
             then calculate_multi_food_nutrition all_foods estimated_weight
             else get_nutrition_info env food_name estimated_weight)
      in \<lparr>cr_food_name = Some food_name,
          cr_weight_grams = estimated_weight,
          cr_total_calories = py_round (ni_calories nutrition_info) 1,
          cr_protein = py_round (ni_protein nutrition_info) 1,
          cr_carbs = py_round (ni_carbs nutrition_info) 1,
          cr_fat = py_round (ni_fat nutrition_info) 1,
          cr_fiber = Some (py_round (ni_fiber nutrition_info) 1),
          cr_sugar = Some (py_round (ni_sugar nutrition_info) 1),
          cr_sodium = Some (py_round (ni_sodium nutrition_info) 1),
          cr_data_source = ''calculated'',
          cr_confidence_score = None\<rparr>)"

text \<open>
  \<^verbatim>\<open>calculate_calories\<close>. A missing \<^verbatim>\<open>primary_food\<close> raises KeyError at the first line,
  which the enclosing handler turns into the fallback values; no other line of the
  cascade raises on the values modelled here.
\<close>

definition calculate_calories :: "environment \<Rightarrow> recognition_result \<Rightarrow> calorie_result" where
  "calculate_calories env recognition =
     (case rr_primary_food recognition of
        None \<Rightarrow> get_fallback_nutrition recognition
      | Some food_name \<Rightarrow>
         (let estimated_weight =
                (case rr_estimated_weight recognition of None \<Rightarrow> 100 | Some w \<Rightarrow> w);
              all_foods = (case rr_all_foods recognition of None \<Rightarrow> [food_name] | Some fs \<Rightarrow> fs)
          in case (if modules_imported env
                   then calculate_accurate_calories food_name (Some estimated_weight)
                   else None) of
               Some enhanced_result \<Rightarrow>
                 if is_fast_food_item food_name
                 then (let web_enhanced =
                             enhance_nutrition_with_web_search env recognition enhanced_result
                       in if cr_data_source web_enhanced = ''web_search_enhanced''
                          then web_enhanced else enhanced_result)
                 else enhanced_result
             | None \<Rightarrow>
                 (case (if modules_imported env
                           \<and> (is_fast_food_item food_name
                                \<or> is_branded_or_restaurant_item food_name)
                        then get_web_search_nutrition env food_name (Some estimated_weight)
                        else None) of
                    Some web_data \<Rightarrow>
                      if 7 / 10 < get0 (wd_confidence web_data)
                      then web_result ''web_search_direct'' food_name estimated_weight web_data
                      else standard_calculation env food_name estimated_weight all_foods
                  | None \<Rightarrow> standard_calculation env food_name estimated_weight all_foods)))"

text \<open>\<^verbatim>\<open>get_calorie_breakdown\<close>: the dict read, and the dict returned.\<close>

record nutrition_dict =
  nd_protein :: "real option"
  nd_carbs :: "real option"
  nd_fat :: "real option"
  nd_total_calories :: "real option"

record calorie_breakdown =
  protein_calories :: real
  carb_calories :: real
  fat_calories :: real
  protein_percentage :: real
  carb_percentage :: real
  fat_percentage :: real

text \<open>\<^verbatim>\<open>(macro / total * 100) if total > 0 else 0\<close>, with the division that can raise.\<close>

definition percentage_of :: "real \<Rightarrow> real \<Rightarrow> py_error + real" where
  "percentage_of macro_cal total_cal =
     (if 0 < total_cal
      then (case py_div macro_cal total_cal of Inl e \<Rightarrow> Inl e | Inr q \<Rightarrow> Inr (q * 100))
      else Inr 0)"

definition get_calorie_breakdown :: "nutrition_dict \<Rightarrow> py_error + calorie_breakdown" where
  "get_calorie_breakdown nutrition_info =
     (let protein_cal = get0 (nd_protein nutrition_info) * 4;
          carb_cal = get0 (nd_carbs nutrition_info) * 4;
          fat_cal = get0 (nd_fat nutrition_info) * 9;
          total_macro_calories = protein_cal + carb_cal + fat_cal;
          total_calories =
            (case nd_total_calories nutrition_info of
               None \<Rightarrow> total_macro_calories | Some t \<Rightarrow> t)
      in case percentage_of protein_cal total_calories of
           Inl e \<Rightarrow> Inl e
         | Inr pp \<Rightarrow>
            (case percentage_of carb_cal total_calories of
               Inl e \<Rightarrow> Inl e
             | Inr cp \<Rightarrow>
                (case percentage_of fat_cal total_calories of
                   Inl e \<Rightarrow> Inl e
                 | Inr fp \<Rightarrow>
                     Inr \<lparr>protein_calories = py_round protein_cal 1,
                          carb_calories = py_round carb_cal 1,
                          fat_calories = py_round fat_cal 1,
                          protein_percentage = py_round pp 1,
                          carb_percentage = py_round cp 1,
                          fat_percentage = py_round fp 1\<rparr>)))"

section \<open>Weight distribution heuristic (hyper_accurate_calculator.py)\<close>

text \<open>
  \<^verbatim>\<open>_estimate_weight_distribution\<close> runs the same chain of keyword tests in both of its
  loops; \<open>portion_kind\<close> is that chain.
\<close>

datatype portion_kind = Main_dish | Vegetable | Sauce | Default_kind

definition portion_kind :: "string \<Rightarrow> portion_kind" where
  "portion_kind food =
     (let food_lower = lower food
      in if any_contained [''rice'', ''pasta'', ''potato'', ''bread'', ''meat'', ''chicken'',
              ''beef'', ''fish''] food_lower then Main_dish
         else if any_contained [''broccoli'', ''carrots'', ''spinach'', ''lettuce'', ''tomato'',
              ''onion''] food_lower then Vegetable
         else if any_contained [''sauce'', ''salsa'', ''dressing'', ''gravy''] food_lower then Sauce
         else Default_kind)"

text \<open>The first loop: the counters \<open>(main_weight, veggie_weight, sauce_weight)\<close>.\<close>

fun count_portions :: "string list \<Rightarrow> real \<times> real \<times> real \<Rightarrow> real \<times> real \<times> real" where
  "count_portions [] acc = acc"
| "count_portions (food # foods) (main_weight, veggie_weight, sauce_weight) =
     (case portion_kind food of
        Main_dish \<Rightarrow> count_portions foods (main_weight + 1, veggie_weight, sauce_weight)
      | Vegetable \<Rightarrow> count_portions foods (main_weight, veggie_weight + 1, sauce_weight)
      | Sauce \<Rightarrow> count_portions foods (main_weight, veggie_weight, sauce_weight + 1)
      | Default_kind \<Rightarrow> count_portions foods (main_weight + 1 / 2, veggie_weight, sauce_weight))"

text \<open>
  The weight the second loop stores for one food. It runs only when the portions do
  not sum to zero, hence with at least one food.
\<close>

definition assigned_weight ::
  "real \<times> real \<times> real \<Rightarrow> nat \<Rightarrow> real \<Rightarrow> string \<Rightarrow> real" where
  "assigned_weight portions n total_weight food =
     (case portions of (main_weight, veggie_weight, sauce_weight) \<Rightarrow>
        (let total_portions = main_weight + veggie_weight + sauce_weight
         in case portion_kind food of
              Main_dish \<Rightarrow> (main_weight / total_portions) * total_weight * (5 / 10)
            | Vegetable \<Rightarrow> (veggie_weight / total_portions) * total_weight * (3 / 10)
            | Sauce \<Rightarrow> (sauce_weight / total_portions) * total_weight * (1 / 10)
            | Default_kind \<Rightarrow> total_weight / real n * (6 / 10)))"

text \<open>
  The dict returned: an association list, a key keeping the place of its first
  assignment (\<open>AList.update\<close>).
\<close>

definition estimate_weight_distribution ::
  "string list \<Rightarrow> real \<Rightarrow> py_error + (string \<times> real) list" where
  "estimate_weight_distribution foods total_weight =
     (let portions = count_portions foods (0, 0, 0);
          total_portions = fst portions + fst (snd portions) + snd (snd portions)
      in if total_portions = 0
         then (case py_div total_weight (real (length foods)) of
                 Inl e \<Rightarrow> Inl e
               | Inr per_food \<Rightarrow>
                   Inr (foldl (\<lambda>distribution food. AList.update food per_food distribution)
                          [] foods))
         else Inr (foldl (\<lambda>distribution food.
                            AList.update food
                              (assigned_weight portions (length foods) total_weight food)
                              distribution)
                     [] foods))"

section \<open>Learning from user corrections (app.py)\<close>

text \<open>
  A row of the feedback table, with the columns the adjuster reads. The number columns
  and the names may be NULL.
\<close>

record user_feedback =
  user_id :: nat
  ai_food_name :: "string option"
  ai_weight_grams :: "real option"
  ai_calories :: "real option"
  corrected_food_name :: "string option"
  corrected_weight_grams :: "real option"
  corrected_calories :: "real option"
  food_category :: "string option"
  created_at :: real

text \<open>
  \<^verbatim>\<open>order_by(created_at.desc())\<close>: rows with the same time stamp stay in table order.
\<close>

definition newest_first :: "user_feedback list \<Rightarrow> user_feedback list" where
  "newest_first rows = sort_key (\<lambda>c. - created_at c) rows"

text \<open>
  The test the code writes four times, for calories and for weight:
  \<^verbatim>\<open>a and c and abs(float(c) - float(a)) / float(a) > threshold\<close>,
  \<open>a\<close> the AI value and \<open>c\<close> the corrected one. A missing or zero operand ends the
  \<^verbatim>\<open>and\<close> chain before the division.
\<close>

definition significant_change :: "real option \<Rightarrow> real option \<Rightarrow> real \<Rightarrow> py_error + bool" where
  "significant_change ai corrected threshold =
     (case ai of
        None \<Rightarrow> Inr False
      | Some a \<Rightarrow>
         (case corrected of
            None \<Rightarrow> Inr False
          | Some c \<Rightarrow>
              if a = 0 \<or> c = 0 then Inr False
              else (case py_div \<bar>c - a\<bar> a of
                      Inl e \<Rightarrow> Inl e
                    | Inr change \<Rightarrow> Inr (threshold < change))))"

definition correction_priority :: "user_feedback \<Rightarrow> py_error + real" where
  "correction_priority correction =
     (case significant_change (ai_calories correction) (corrected_calories correction) (5 / 10) of
        Inl e \<Rightarrow> Inl e
      | Inr has_calorie_change \<Rightarrow>
         (case significant_change (ai_weight_grams correction)
                 (corrected_weight_grams correction) (2 / 10) of
            Inl e \<Rightarrow> Inl e
          | Inr has_portion_change \<Rightarrow>
              Inr ((if has_calorie_change then 100 else 0)
                   + (if has_portion_change then 50 else 0)
                   + created_at correction / 1000000)))"

text \<open>The sort keys of a list, computed front to back; the first error ends it.\<close>

fun priorities :: "user_feedback list \<Rightarrow> py_error + real list" where
  "priorities [] = Inr []"
| "priorities (c # cs) =
     (case correction_priority c of
        Inl e \<Rightarrow> Inl e
      | Inr p \<Rightarrow> (case priorities cs of Inl e \<Rightarrow> Inl e | Inr ps \<Rightarrow> Inr (p # ps)))"

text \<open>Corrections of the user whose AI label shares two words or more with the label.\<close>

definition fuzzy_matches :: "user_feedback list \<Rightarrow> string \<Rightarrow> user_feedback list" where
  "fuzzy_matches all_corrections food_name =
     (let food_words = remdups (str_split (lower food_name))
      in filter (\<lambda>correction.
                   case ai_food_name correction of
                     None \<Rightarrow> False
                   | Some ai_name \<Rightarrow>
                       ai_name \<noteq> []
                       \<and> 2 \<le> length (filter (\<lambda>w. w \<in> set (str_split (lower ai_name))) food_words))
           all_corrections)"

record learning_context =
  similar_corrections :: "user_feedback list"
  exact_corrections :: "user_feedback list"
  fuzzy_corrections :: "user_feedback list"
  lc_food_category :: string

text \<open>
  \<^verbatim>\<open>get_learning_context\<close>, called without a category; \<open>table\<close> is the feedback table.
  \<^verbatim>\<open>sort(key=..., reverse=True)\<close> is stable.
\<close>

definition get_learning_context ::
  "user_feedback list \<Rightarrow> nat \<Rightarrow> string \<Rightarrow> py_error + learning_context" where
  "get_learning_context table uid food_name =
     (let category = classify_food_category food_name;
          similar = take 10 (newest_first
                      (filter (\<lambda>c. user_id c = uid \<and> food_category c = Some category) table));
          exact = take 5 (newest_first
                      (filter (\<lambda>c. user_id c = uid \<and> ai_food_name c = Some food_name) table))
      in if exact \<noteq> []
         then Inr \<lparr>similar_corrections = similar, exact_corrections = exact,
                   fuzzy_corrections = [], lc_food_category = category\<rparr>
         else (let candidates = fuzzy_matches (filter (\<lambda>c. user_id c = uid) table) food_name
               in case priorities candidates of
                    Inl e \<Rightarrow> Inl e
                  | Inr keys \<Rightarrow>
                      Inr \<lparr>similar_corrections = similar, exact_corrections = exact,
                           fuzzy_corrections =
                             take 5 (map snd (sort_key (\<lambda>kc. - fst kc) (zip keys candidates))),
                           lc_food_category = category\<rparr>))"

text \<open>The dict the adjuster works on.\<close>

record analysis_result =
  ar_food_name :: "string option"
  ar_weight_grams :: real
  ar_calories :: real
  ar_protein :: real
  ar_carbs :: real
  ar_fat :: real
  ar_learning_applied :: "string option"

fun join :: "string \<Rightarrow> string list \<Rightarrow> string" where
  "join sep [] = []"
| "join sep [x] = x"
| "join sep (x # y # ys) = x @ sep @ join sep (y # ys)"

text \<open>\<^verbatim>\<open>float(c) / float(a)\<close> on two columns; \<^verbatim>\<open>float(None)\<close> raises TypeError.\<close>

definition ratio_of :: "real option \<Rightarrow> real option \<Rightarrow> py_error + real" where
  "ratio_of corrected ai =
     (case corrected of
        None \<Rightarrow> Inl TypeError
      | Some c \<Rightarrow> (case ai of None \<Rightarrow> Inl TypeError | Some a \<Rightarrow> py_div c a))"

text \<open>
  The body of \<^verbatim>\<open>if corrections_to_use:\<close>, for the first correction of the list. Both
  tests are evaluated before the branch; \<open>learning_types\<close> collects the markers.
\<close>

definition apply_latest_correction ::
  "string \<Rightarrow> user_feedback \<Rightarrow> analysis_result \<Rightarrow> py_error + analysis_result" where
  "apply_latest_correction correction_type latest result =
     (let renamed = (corrected_food_name latest \<noteq> ai_food_name latest);
          result1 = (if renamed then result\<lparr>ar_food_name := corrected_food_name latest\<rparr>
                     else result);
          types1 = (if renamed then [''name_correction''] else [])
      in case significant_change (ai_weight_grams latest) (corrected_weight_grams latest)
                (2 / 10) of
           Inl e \<Rightarrow> Inl e
         | Inr has_portion_change \<Rightarrow>
            (case significant_change (ai_calories latest) (corrected_calories latest)
                    (5 / 10) of
               Inl e \<Rightarrow> Inl e
             | Inr has_calorie_change \<Rightarrow>
                (case (if has_portion_change
                       then (case ratio_of (corrected_weight_grams latest)
                                     (ai_weight_grams latest) of
                               Inl e \<Rightarrow> Inl e
                             | Inr weight_ratio \<Rightarrow>
                                 if 3 / 10 \<le> weight_ratio \<and> weight_ratio \<le> 5
                                 then Inr (result1
                                        \<lparr>ar_weight_grams := ar_weight_grams result1 * weight_ratio,
                                         ar_calories := ar_calories result1 * weight_ratio\<rparr>,
                                       types1 @ [''portion_adjustment''])
                                 else Inr (result1, types1))
                       else if has_calorie_change
                       then (case ratio_of (corrected_calories latest) (ai_calories latest) of
                               Inl e \<Rightarrow> Inl e
                             | Inr calorie_ratio \<Rightarrow>
                                 Inr (result1
                                        \<lparr>ar_calories := ar_calories result1 * calorie_ratio\<rparr>,
                                      types1 @ [''calorie_correction'']))
                       else Inr (result1, types1)) of
                   Inl e \<Rightarrow> Inl e
                 | Inr (result2, learning_types) \<Rightarrow>
                     if learning_types \<noteq> []
                     then Inr (result2\<lparr>ar_learning_applied :=
                                 Some (correction_type @ ''_'' @ join ''_'' learning_types)\<rparr>)
                     else Inr result2)))"

text \<open>The loop that collects the calorie ratios of the category corrections.\<close>

fun collect_calorie_ratios :: "user_feedback list \<Rightarrow> real list \<Rightarrow> py_error + real list" where
  "collect_calorie_ratios [] calorie_ratios = Inr calorie_ratios"
| "collect_calorie_ratios (correction # rest) calorie_ratios =
     (if truthy (ai_calories correction) \<and> truthy (corrected_calories correction)
      then (case ratio_of (corrected_calories correction) (ai_calories correction) of
              Inl e \<Rightarrow> Inl e
            | Inr ratio \<Rightarrow>
                if 3 / 10 \<le> ratio \<and> ratio \<le> 3
                then collect_calorie_ratios rest (calorie_ratios @ [ratio])
                else collect_calorie_ratios rest calorie_ratios)
      else collect_calorie_ratios rest calorie_ratios)"

text \<open>The category step, from \<^verbatim>\<open># Apply category-based corrections\<close> on.\<close>

definition apply_category_corrections ::
  "user_feedback list \<Rightarrow> analysis_result \<Rightarrow> py_error + analysis_result" where
  "apply_category_corrections similar result =
     (if similar \<noteq> [] \<and> 3 \<le> length similar
      then (case collect_calorie_ratios similar [] of
              Inl e \<Rightarrow> Inl e
            | Inr calorie_ratios \<Rightarrow>
                if calorie_ratios \<noteq> []
                then (case py_div (sum_list calorie_ratios) (real (length calorie_ratios)) of
                        Inl e \<Rightarrow> Inl e
                      | Inr avg_calorie_ratio \<Rightarrow>
                          if 1 / 10 < \<bar>avg_calorie_ratio - 1\<bar>
                          then Inr (result
                                 \<lparr>ar_calories := ar_calories result * avg_calorie_ratio,
                                  ar_learning_applied := Some ''category_calorie_adjustment''\<rparr>)
                          else Inr result)
                else Inr result)
      else Inr result)"

text \<open>
  \<^verbatim>\<open>apply_learning_adjustments\<close>. A result whose \<^verbatim>\<open>food_name\<close> is \<^verbatim>\<open>None\<close> makes the
  classifier raise AttributeError.
\<close>

definition apply_learning_adjustments ::
  "user_feedback list \<Rightarrow> analysis_result \<Rightarrow> nat \<Rightarrow> py_error + analysis_result" where
  "apply_learning_adjustments table result uid =
     (case ar_food_name result of
        None \<Rightarrow> Inl AttributeError
      | Some food_name \<Rightarrow>
         (case get_learning_context table uid food_name of
            Inl e \<Rightarrow> Inl e
          | Inr learning_context \<Rightarrow>
             (let exact = exact_corrections learning_context;
                  corrections_to_use =
                    (if exact \<noteq> [] then exact else fuzzy_corrections learning_context);
                  correction_type = (if exact \<noteq> [] then ''exact'' else ''fuzzy'')
              in case (case corrections_to_use of
                         [] \<Rightarrow> Inr result
                       | latest # others \<Rightarrow>
                           apply_latest_correction correction_type latest result) of
                   Inl e \<Rightarrow> Inl e
                 | Inr adjusted \<Rightarrow>
                     apply_category_corrections (similar_corrections learning_context)
                       adjusted)))"

section \<open>Notions used in the statements\<close>

text \<open>
  The adjuster's significance test as a plain condition: both columns present and
  non-zero, and the change relative to the AI value above the threshold.
\<close>

definition changed_by_more_than :: "real option \<Rightarrow> real option \<Rightarrow> real \<Rightarrow> bool" where
  "changed_by_more_than ai corrected threshold =
     (case ai of
        None \<Rightarrow> False
      | Some a \<Rightarrow>
         (case corrected of
            None \<Rightarrow> False
          | Some c \<Rightarrow> a \<noteq> 0 \<and> c \<noteq> 0 \<and> threshold < \<bar>c - a\<bar> / a))"

text \<open>The quotient corrected / AI of two columns (read where both are present).\<close>

definition column_ratio :: "real option \<Rightarrow> real option \<Rightarrow> real" where
  "column_ratio corrected ai = get0 corrected / get0 ai"



text \<open>
  The calorie ratios the category step averages: of the rows with both calorie columns
  present and non-zero, those whose ratio lies in [0.3, 3.0].
\<close>

definition in_range_ratios :: "user_feedback list \<Rightarrow> real list" where
  "in_range_ratios similar =
     filter (\<lambda>q. 3 / 10 \<le> q \<and> q \<le> 3)
       (map (\<lambda>c. column_ratio (corrected_calories c) (ai_calories c))
          (filter (\<lambda>c. truthy (ai_calories c) \<and> truthy (corrected_calories c)) similar))"

definition mean_ratio :: "real list \<Rightarrow> real" where
  "mean_ratio xs = sum_list xs / real (length xs)"


text \<open>The total \<^verbatim>\<open>get_calorie_breakdown\<close> divides by.\<close>

definition total_calories_read :: "nutrition_dict \<Rightarrow> real" where
  "total_calories_read d =
     (case nd_total_calories d of
        None \<Rightarrow> get0 (nd_protein d) * 4 + get0 (nd_carbs d) * 4 + get0 (nd_fat d) * 9
      | Some t \<Rightarrow> t)"


text \<open>
  Example rows of the feedback table: a correction that keeps the name, stored with the
  category of that name as \<^verbatim>\<open>capture_user_feedback\<close> stores it. The arguments are the
  user, the label, AI and corrected weight, AI and corrected calories, and the time.
\<close>

definition feedback_row ::
  "nat \<Rightarrow> string \<Rightarrow> real \<Rightarrow> real \<Rightarrow> real \<Rightarrow> real \<Rightarrow> real \<Rightarrow> user_feedback" where
  "feedback_row uid label aw cw ac cc time =
     \<lparr>user_id = uid, ai_food_name = Some label, ai_weight_grams = Some aw,
      ai_calories = Some ac, corrected_food_name = Some label,
      corrected_weight_grams = Some cw, corrected_calories = Some cc,
      food_category = Some (classify_food_category label), created_at = time\<rparr>"

text \<open>An analysis result for a label, before any adjustment.\<close>

definition raw_result :: "string \<Rightarrow> real \<Rightarrow> real \<Rightarrow> analysis_result" where
  "raw_result label weight calories =
     \<lparr>ar_food_name = Some label, ar_weight_grams = weight, ar_calories = calories,
      ar_protein = 0, ar_carbs = 0, ar_fat = 0, ar_learning_applied = None\<rparr>"

text \<open>
  A user's history: one correction of "rice" that raised the portion from 100 g to
  150 g (and the calories with it), and two more corrections in the grain category.
\<close>

definition rice_history :: "user_feedback list" where
  "rice_history =
     [feedback_row 7 ''rice'' 100 150 200 300 3, feedback_row 7 ''pasta'' 100 100 100 150 2,
      feedback_row 7 ''bread'' 100 100 100 150 1]"


text \<open>A fast-food reply that reports its own serving weight, and a world that gives it.\<close>

definition serving_reply :: "real \<Rightarrow> real \<Rightarrow> real \<Rightarrow> web_data" where
  "serving_reply calories serving confidence =
     \<lparr>wd_food_name = None, wd_calories = Some calories, wd_protein = None, wd_carbs = None,
      wd_fat = None, wd_fiber = None, wd_sugar = None, wd_sodium = None,
      wd_serving_weight_grams = Some serving, wd_confidence = Some confidence,
      wd_error = False\<rparr>"

definition answering_environment :: "web_data \<Rightarrow> environment" where
  "answering_environment reply =
     \<lparr>modules_imported = True, fast_food_reply = (\<lambda>label. Some reply),
      general_reply = (\<lambda>label. None), usda_nutrition = (\<lambda>label weight. None)\<rparr>"

section \<open>Auxiliary facts\<close>

subsection \<open>Rounding\<close>







lemma py_round_zero: "py_round 0 n = 0"
  by (simp add: py_round_def round_half_even_def)

subsection \<open>The enhanced table\<close>







subsection \<open>The label "unknown"\<close>






lemma missing_label_fallback:
  "calculate_calories env
       \<lparr>rr_primary_food = None, rr_estimated_weight = Some 100, rr_all_foods = fs\<rparr> =
     \<lparr>cr_food_name = Some ''Unknown food'', cr_weight_grams = 100, cr_total_calories = 150,
      cr_protein = 5, cr_carbs = 20, cr_fat = 5, cr_fiber = Some 2, cr_sugar = Some 8,
      cr_sodium = Some (3 / 10), cr_data_source = ''fallback_estimate'',
      cr_confidence_score = None\<rparr>"
  by (simp add: calculate_calories_def get_fallback_nutrition_def)

subsection \<open>The requested weight through the cascade\<close>

lemma search_fast_food_weight:
  assumes "search_fast_food_nutrition env n (Some w) = Some wd" and "w \<noteq> 0"
  shows "(case wd_serving_weight_grams wd of None \<Rightarrow> w | Some s \<Rightarrow> s) = w"
  using assms
  by (auto simp: search_fast_food_nutrition_def scale_nutrition_data_def py_div_def
        split: option.splits if_splits sum.splits)

lemma search_general_weight:
  assumes "search_general_nutrition env n (Some w) = Some wd" and "w \<noteq> 0"
  shows "(case wd_serving_weight_grams wd of None \<Rightarrow> w | Some s \<Rightarrow> s) = w"
  using assms
  by (auto simp: search_general_nutrition_def Let_def split: option.splits if_splits)

lemma web_search_weight:
  assumes "get_web_search_nutrition env n (Some w) = Some wd" and "w \<noteq> 0"
  shows "(case wd_serving_weight_grams wd of None \<Rightarrow> w | Some s \<Rightarrow> s) = w"
  using assms search_fast_food_weight search_general_weight
  by (auto simp: get_web_search_nutrition_def split: if_splits)

lemma web_result_weight:
  assumes "get_web_search_nutrition env n (Some w) = Some wd" and "w \<noteq> 0"
  shows "cr_weight_grams (web_result tag n' w wd) = w"
  using web_search_weight [OF assms] by (simp add: web_result_def)

lemma accurate_weight:
  "calculate_accurate_calories n (Some w) = Some e \<Longrightarrow> cr_weight_grams e = w"
  by (auto simp: calculate_accurate_calories_def Let_def split: option.splits)

lemma standard_weight: "cr_weight_grams (standard_calculation env n w fs) = w"
  by (simp add: standard_calculation_def Let_def)

lemma enhance_weight:
  assumes "cr_weight_grams e = w" and "w \<noteq> 0"
    and "w = (case rr_estimated_weight r of None \<Rightarrow> 100 | Some w \<Rightarrow> w)"
  shows "cr_weight_grams (enhance_nutrition_with_web_search env r e) = w"
  using assms web_result_weight
  by (auto simp: enhance_nutrition_with_web_search_def Let_def split: option.splits)

lemma fries_web_direct:
  "cr_data_source
     (calculate_calories (answering_environment (serving_reply 320 150 (9 / 10)))
        \<lparr>rr_primary_food = Some ''mcdonalds fries'', rr_estimated_weight = Some 100,
         rr_all_foods = None\<rparr>) = ''web_search_direct''"
  by code_simp

text \<open>
  With a requested weight of zero the fast-food client does not rescale, and the
  serving weight of the reply is what the record carries. The recogniser never asks
  for less than one gram.
\<close>

lemma zero_weight_takes_serving_weight:
  "cr_weight_grams
     (calculate_calories (answering_environment (serving_reply 320 150 (9 / 10)))
        \<lparr>rr_primary_food = Some ''mcdonalds fries'', rr_estimated_weight = Some 0,
         rr_all_foods = None\<rparr>) = 150"
  by code_simp

subsection \<open>Splitting a weight over several foods\<close>

lemma foldl_update_map_of:
  "map_of (foldl (\<lambda>d f. AList.update f (g f) d) d0 fs)
     = (\<lambda>k. if k \<in> set fs then Some (g k) else map_of d0 k)"
proof (induction fs arbitrary: d0)
  case Nil
  show ?case by simp
next
  case (Cons f fs)
  show ?case by (auto simp: Cons.IH update_conv' fun_eq_iff)
qed

lemma foldl_update_distinct:
  "distinct (map fst d0) \<Longrightarrow> distinct (map fst (foldl (\<lambda>d f. AList.update f (g f) d) d0 fs))"
  by (induction fs arbitrary: d0) (simp_all add: distinct_update)

lemma count_portions_grows:
  assumes "count_portions fs (a, b, c) = (a', b', c')"
  shows "a \<le> a' \<and> b \<le> b' \<and> c \<le> c' \<and> a + b + c + real (length fs) / 2 \<le> a' + b' + c'"
  using assms
proof (induction fs arbitrary: a b c)
  case Nil
  then show ?case by simp
next
  case (Cons f fs)
  show ?case
  proof (cases "portion_kind f")
    case Main_dish
    with Cons.prems have "count_portions fs (a + 1, b, c) = (a', b', c')" by simp
    from Cons.IH [OF this] show ?thesis by (simp add: field_simps)
  next
    case Vegetable
    with Cons.prems have "count_portions fs (a, b + 1, c) = (a', b', c')" by simp
    from Cons.IH [OF this] show ?thesis by (simp add: field_simps)
  next
    case Sauce
    with Cons.prems have "count_portions fs (a, b, c + 1) = (a', b', c')" by simp
    from Cons.IH [OF this] show ?thesis by (simp add: field_simps)
  next
    case Default_kind
    with Cons.prems have "count_portions fs (a + 1 / 2, b, c) = (a', b', c')" by simp
    from Cons.IH [OF this] show ?thesis by (simp add: field_simps)
  qed
qed

lemma total_portions_positive:
  assumes "fs \<noteq> []"
  shows "fst (count_portions fs (0, 0, 0)) + fst (snd (count_portions fs (0, 0, 0)))
           + snd (snd (count_portions fs (0, 0, 0))) \<noteq> 0"
proof -
  obtain a b c where abc: "count_portions fs (0, 0, 0) = (a, b, c)"
    by (metis prod_cases3)
  from count_portions_grows [OF abc] assms have "0 < a + b + c"
    by (cases fs) auto
  with abc show ?thesis by simp
qed

text \<open>
  The equal division of \<^verbatim>\<open>_calculate_multi_food_nutrition\<close> hands out the whole weight;
  the heuristic gives every listed food the weight of its kind.
\<close>

lemma equal_division_sums_to_total:
  assumes "2 \<le> length foods"
  shows "sum_list (map (\<lambda>food. weight_per_food foods W) foods) = W"
proof -
  from assms have "foods \<noteq> []" by auto
  then show ?thesis by (simp add: weight_per_food_def sum_list_triv)
qed

lemma heuristic_assigns_by_kind:
  assumes "2 \<le> length foods"
  shows "\<exists>d. estimate_weight_distribution foods W = Inr d
            \<and> distinct (map fst d)
            \<and> map_of d = (\<lambda>food. if food \<in> set foods
                 then Some (assigned_weight (count_portions foods (0, 0, 0)) (length foods) W food)
                 else None)"
proof -
  from assms have "foods \<noteq> []" by auto
  from total_portions_positive [OF this] show ?thesis
    by (simp add: estimate_weight_distribution_def Let_def foldl_update_map_of
          foldl_update_distinct cong: if_cong)
qed

subsection \<open>The adjuster's guards\<close>

lemma significant_change_eq:
  "significant_change ai corrected t = Inr (changed_by_more_than ai corrected t)"
  by (simp add: significant_change_def changed_by_more_than_def py_div_def split: option.splits)

lemma ratio_of_truthy:
  "truthy ai \<Longrightarrow> truthy corrected \<Longrightarrow> ratio_of corrected ai = Inr (column_ratio corrected ai)"
  by (cases ai; cases corrected) (simp_all add: ratio_of_def py_div_def column_ratio_def)

lemma changed_truthy:
  "changed_by_more_than ai corrected t \<Longrightarrow> truthy ai \<and> truthy corrected"
  by (auto simp: changed_by_more_than_def split: option.splits)

lemma correction_priority_eq:
  "correction_priority c =
     Inr ((if changed_by_more_than (ai_calories c) (corrected_calories c) (5 / 10)
           then 100 else 0)
          + (if changed_by_more_than (ai_weight_grams c) (corrected_weight_grams c) (2 / 10)
             then 50 else 0)
          + created_at c / 1000000)"
  by (simp add: correction_priority_def significant_change_eq)

lemma priorities_total: "\<exists>ps. priorities cs = Inr ps"
  by (induction cs) (auto simp: correction_priority_eq)

lemma get_learning_context_total: "\<exists>ctx. get_learning_context table uid name = Inr ctx"
proof -
  obtain ps where
    "priorities (fuzzy_matches (filter (\<lambda>c. user_id c = uid) table) name) = Inr ps"
    using priorities_total by blast
  then show ?thesis by (simp add: get_learning_context_def Let_def)
qed

lemma collect_calorie_ratios_eq:
  "collect_calorie_ratios cs acc = Inr (acc @ in_range_ratios cs)"
proof (induction cs arbitrary: acc)
  case Nil
  show ?case by (simp add: in_range_ratios_def)
next
  case (Cons c cs)
  show ?case
  proof (cases "truthy (ai_calories c) \<and> truthy (corrected_calories c)")
    case True
    then show ?thesis
      using Cons.IH by (simp add: ratio_of_truthy in_range_ratios_def)
  next
    case False
    then show ?thesis
      using Cons.IH by (auto simp: in_range_ratios_def)
  qed
qed

lemma apply_category_corrections_eq:
  "apply_category_corrections similar r =
     Inr (if 3 \<le> length similar \<and> in_range_ratios similar \<noteq> []
             \<and> 1 / 10 < \<bar>mean_ratio (in_range_ratios similar) - 1\<bar>
          then r\<lparr>ar_calories := ar_calories r * mean_ratio (in_range_ratios similar),
                 ar_learning_applied := Some ''category_calorie_adjustment''\<rparr>
          else r)"
  by (auto simp: apply_category_corrections_def collect_calorie_ratios_eq py_div_def
        mean_ratio_def)

lemma apply_latest_correction_total: "\<exists>r'. apply_latest_correction t c r = Inr r'"
proof (cases "changed_by_more_than (ai_weight_grams c) (corrected_weight_grams c) (2 / 10)")
  case True
  then have "ratio_of (corrected_weight_grams c) (ai_weight_grams c)
      = Inr (column_ratio (corrected_weight_grams c) (ai_weight_grams c))"
    using changed_truthy ratio_of_truthy by blast
  with True show ?thesis
    by (simp add: apply_latest_correction_def significant_change_eq Let_def)
next
  case False
  show ?thesis
  proof (cases "changed_by_more_than (ai_calories c) (corrected_calories c) (5 / 10)")
    case True
    then have "ratio_of (corrected_calories c) (ai_calories c)
      = Inr (column_ratio (corrected_calories c) (ai_calories c))"
      using changed_truthy ratio_of_truthy by blast
    with True False show ?thesis
      by (simp add: apply_latest_correction_def significant_change_eq Let_def)
  next
    case unchanged: False
    with False show ?thesis
      by (simp add: apply_latest_correction_def significant_change_eq Let_def)
  qed
qed

lemma percentage_of_eq: "percentage_of m t = Inr (if 0 < t then m / t * 100 else 0)"
  by (simp add: percentage_of_def py_div_def)

section \<open>Verified properties\<close>




text \<open>
  Claim C2. The sub-weights of the heuristic should add up to the total weight. They
  do not: of 100 g, rice and broccoli get 25 g and 15 g, and three main dishes get
  50 g each.
\<close>

theorem heuristic_weights_do_not_add_up:
  "estimate_weight_distribution [''rice'', ''broccoli''] 100
     = Inr [(''rice'', 25), (''broccoli'', 15)]
   \<and> estimate_weight_distribution [''rice'', ''pasta'', ''chicken''] 100
     = Inr [(''rice'', 50), (''pasta'', 50), (''chicken'', 50)]"
  by code_simp

text \<open>
  Claim C3. For a requested weight other than zero (the weight given, or 100 g when
  none is given), the record \<^verbatim>\<open>calculate_calories\<close> returns carries that weight, in every
  step of the cascade and whatever serving weight a web reply reports.
\<close>

theorem requested_weight_kept:
  assumes "(case rr_estimated_weight r of None \<Rightarrow> 100 | Some w \<Rightarrow> w) \<noteq> 0"
  shows "cr_weight_grams (calculate_calories env r)
           = (case rr_estimated_weight r of None \<Rightarrow> 100 | Some w \<Rightarrow> w)"
proof (cases "rr_primary_food r")
  case None
  then show ?thesis by (simp add: calculate_calories_def get_fallback_nutrition_def Let_def)
next
  case (Some food_name)
  define w where "w = (case rr_estimated_weight r of None \<Rightarrow> 100 | Some w \<Rightarrow> w)"
  have w0: "w \<noteq> 0" using assms by (simp add: w_def)
  show ?thesis
  proof (cases "if modules_imported env then calculate_accurate_calories food_name (Some w)
                else None")
    case (Some e)
    then have "cr_weight_grams e = w" by (auto dest: accurate_weight split: if_splits)
    then show ?thesis
      using Some \<open>rr_primary_food r = Some food_name\<close> enhance_weight [OF _ w0 w_def, of e env]
      by (simp add: calculate_calories_def Let_def w_def [symmetric])
  next
    case None
    show ?thesis
      using None \<open>rr_primary_food r = Some food_name\<close> w0 web_result_weight [of env food_name w]
      by (auto simp: calculate_calories_def Let_def w_def [symmetric] standard_weight
            split: option.splits)
  qed
qed

theorem requested_weight_kept_witness:
  "cr_data_source
     (calculate_calories (answering_environment (serving_reply 320 150 (9 / 10)))
        \<lparr>rr_primary_food = Some ''mcdonalds fries'', rr_estimated_weight = Some 100,
         rr_all_foods = None\<rparr>) = ''web_search_direct''
   \<and> cr_weight_grams
       (calculate_calories (answering_environment (serving_reply 320 150 (9 / 10)))
          \<lparr>rr_primary_food = Some ''mcdonalds fries'', rr_estimated_weight = Some 100,
           rr_all_foods = None\<rparr>) = 100"
  using requested_weight_kept [of
      "\<lparr>rr_primary_food = Some ''mcdonalds fries'', rr_estimated_weight = Some 100,
        rr_all_foods = None\<rparr>"
      "answering_environment (serving_reply 320 150 (9 / 10))"]
    fries_web_direct
  by simp

text \<open>
  Claim C4. When step 4 and the category step both fire, the provenance should name
  all markers. It does not: for the label "rice" with one exact portion correction and
  three category corrections, step 4 leaves "exact_portion_adjustment", and the record
  returned (weight and calories adjusted by both steps) carries only
  "category_calorie_adjustment".
\<close>

theorem category_marker_replaces_markers:
  "apply_latest_correction ''exact'' (feedback_row 7 ''rice'' 100 150 200 300 3)
       (raw_result ''rice'' 100 200)
     = Inr ((raw_result ''rice'' 100 200)
         \<lparr>ar_weight_grams := 150, ar_calories := 300,
          ar_learning_applied := Some ''exact_portion_adjustment''\<rparr>)
   \<and> apply_learning_adjustments rice_history (raw_result ''rice'' 100 200) 7
     = Inr ((raw_result ''rice'' 100 200)
         \<lparr>ar_weight_grams := 150, ar_calories := 450,
          ar_learning_applied := Some ''category_calorie_adjustment''\<rparr>)"
  by code_simp









text \<open>
  Claim C8. The classifier maps "chicken sandwich" to grain although the label also
  contains the protein keyword "chicken": the grain group, which lists "sandwich", is
  tested first.
\<close>

theorem classify_chicken_sandwich_grain:
  "classify_food_category ''chicken sandwich'' = ''grain''
   \<and> any_contained [''chicken''] (lower ''chicken sandwich'')
   \<and> classify_food_category ''chicken'' = ''protein''"
  by code_simp

text \<open>
  Claim C9. Every division of the adjuster is modelled as one that raises on a zero
  divisor. None raises: the priority of a correction, the learning context and the
  adjusted record are always obtained, for every feedback table and every record with
  a label. A missing or zero AI value ends the significance test with the answer
  "no", and a correction whose AI weight and AI calories are missing or zero changes
  nothing but, possibly, the name.
\<close>

theorem adjuster_never_divides_by_zero:
  "(\<exists>p. correction_priority c = Inr p)
   \<and> (\<exists>ctx. get_learning_context table uid name = Inr ctx)
   \<and> (\<exists>r'. apply_learning_adjustments table (r\<lparr>ar_food_name := Some name\<rparr>) uid = Inr r')
   \<and> significant_change None x t = Inr False
   \<and> significant_change (Some 0) x t = Inr False
   \<and> apply_latest_correction tag (c\<lparr>ai_weight_grams := None, ai_calories := Some 0\<rparr>) r
       = Inr (if corrected_food_name c \<noteq> ai_food_name c
              then r\<lparr>ar_food_name := corrected_food_name c,
                     ar_learning_applied := Some (tag @ ''_name_correction'')\<rparr>
              else r)
   \<and> apply_latest_correction tag (c\<lparr>ai_weight_grams := Some 0, ai_calories := None\<rparr>) r
       = Inr (if corrected_food_name c \<noteq> ai_food_name c
              then r\<lparr>ar_food_name := corrected_food_name c,
                     ar_learning_applied := Some (tag @ ''_name_correction'')\<rparr>
              else r)"
proof -
  obtain ctx where ctx: "get_learning_context table uid name = Inr ctx"
    using get_learning_context_total by blast
  have "\<exists>r'. apply_learning_adjustments table (r\<lparr>ar_food_name := Some name\<rparr>) uid = Inr r'"
  proof (cases "if exact_corrections ctx \<noteq> [] then exact_corrections ctx
                 else fuzzy_corrections ctx")
    case Nil
    then show ?thesis
      by (simp add: apply_learning_adjustments_def ctx Let_def apply_category_corrections_eq)
  next
    case (Cons latest others)
    obtain r1 where "apply_latest_correction
        (if exact_corrections ctx \<noteq> [] then ''exact'' else ''fuzzy'') latest
        (r\<lparr>ar_food_name := Some name\<rparr>) = Inr r1"
      using apply_latest_correction_total by blast
    with Cons show ?thesis
      by (simp add: apply_learning_adjustments_def ctx Let_def apply_category_corrections_eq)
  qed
  moreover have "apply_latest_correction tag
        (c\<lparr>ai_weight_grams := None, ai_calories := Some 0\<rparr>) r
       = Inr (if corrected_food_name c \<noteq> ai_food_name c
              then r\<lparr>ar_food_name := corrected_food_name c,
                     ar_learning_applied := Some (tag @ ''_name_correction'')\<rparr>
              else r)"
    by (simp add: apply_latest_correction_def significant_change_eq changed_by_more_than_def
          Let_def split: option.splits)
  moreover have "apply_latest_correction tag
        (c\<lparr>ai_weight_grams := Some 0, ai_calories := None\<rparr>) r
       = Inr (if corrected_food_name c \<noteq> ai_food_name c
              then r\<lparr>ar_food_name := corrected_food_name c,
                     ar_learning_applied := Some (tag @ ''_name_correction'')\<rparr>
              else r)"
    by (simp add: apply_latest_correction_def significant_change_eq changed_by_more_than_def
          Let_def split: option.splits)
  ultimately show ?thesis
    by (simp add: correction_priority_eq ctx significant_change_eq changed_by_more_than_def
          split: option.splits)
qed

theorem adjuster_never_divides_by_zero_witness:
  "\<exists>r'. apply_learning_adjustments
           [\<lparr>user_id = 7, ai_food_name = Some ''rice'', ai_weight_grams = Some 0,
             ai_calories = None, corrected_food_name = Some ''rice'',
             corrected_weight_grams = Some 150, corrected_calories = Some 300,
             food_category = Some ''grain'', created_at = 3\<rparr>]
           ((raw_result ''rice'' 100 200)\<lparr>ar_food_name := Some ''rice''\<rparr>) 7 = Inr r'"
  using adjuster_never_divides_by_zero [of _
      "[\<lparr>user_id = 7, ai_food_name = Some ''rice'', ai_weight_grams = Some 0,
         ai_calories = None, corrected_food_name = Some ''rice'',
         corrected_weight_grams = Some 150, corrected_calories = Some 300,
         food_category = Some ''grain'', created_at = 3\<rparr>]" 7 "''rice''"
      "raw_result ''rice'' 100 200"]
  by blast

text \<open>
  Claim C10. \<^verbatim>\<open>get_calorie_breakdown\<close>, its divisions modelled as ones that raise on a
  zero divisor, returns its six fields for every input. When the total (the key
  \<^verbatim>\<open>total_calories\<close>, or the calories of the three macros when the key is absent) is
  zero or negative, the three percentages are 0; otherwise they are the rounded shares.
\<close>

theorem breakdown_is_total:
  "\<exists>b. get_calorie_breakdown d = Inr b
     \<and> protein_calories b = py_round (get0 (nd_protein d) * 4) 1
     \<and> carb_calories b = py_round (get0 (nd_carbs d) * 4) 1
     \<and> fat_calories b = py_round (get0 (nd_fat d) * 9) 1
     \<and> (if total_calories_read d \<le> 0
         then protein_percentage b = 0 \<and> carb_percentage b = 0 \<and> fat_percentage b = 0
         else protein_percentage b
                = py_round (get0 (nd_protein d) * 4 / total_calories_read d * 100) 1
            \<and> carb_percentage b
                = py_round (get0 (nd_carbs d) * 4 / total_calories_read d * 100) 1
            \<and> fat_percentage b
                = py_round (get0 (nd_fat d) * 9 / total_calories_read d * 100) 1)"
  by (simp add: get_calorie_breakdown_def percentage_of_eq total_calories_read_def Let_def
        py_round_zero)

theorem breakdown_is_total_witness:
  "get_calorie_breakdown
       \<lparr>nd_protein = None, nd_carbs = None, nd_fat = None, nd_total_calories = None\<rparr>
     = Inr \<lparr>protein_calories = 0, carb_calories = 0, fat_calories = 0,
            protein_percentage = 0, carb_percentage = 0, fat_percentage = 0\<rparr>"
  using breakdown_is_total [of
      "\<lparr>nd_protein = None, nd_carbs = None, nd_fat = None, nd_total_calories = None\<rparr>"]
  by (auto simp: total_calories_read_def py_round_zero)

end
